theory Spec2Isabelle
  imports Complex_Main "HOL-Library.Word" "HOL-Library.Signed_Division"
begin

section \<open>LoR Core V3 web-button sketch: command decoder and servo drive layer\<close>

text \<open>
  The development embeds the drive layer and the HTTP command decoder of
  \<^verbatim>\<open>LoR_v3_Web_buttons.ino\<close>.  The sketch's \<^verbatim>\<open>int\<close> and \<^verbatim>\<open>long\<close> are
  modelled by \<^typ>\<open>int\<close>.  The only arithmetic in the modelled code is the
  proportional map inside \<^verbatim>\<open>percentToServoAngle\<close>, whose operand has been
  clamped to [-100,100] before (all intermediate values lie in [0,36000]), and the
  unary minus on \<^verbatim>\<open>driveSpeed\<close>, a 32-bit operation whose wrap-around at the
  minimum is written out in \<open>int32_neg\<close>.  Serial diagnostics, pin modes, Wi-Fi bring-up
  and the HTTP transport are output-only collaborators and are left out; the
  \<^verbatim>\<open>String speed\<close> global that feeds the diagnostics is kept, since it is program
  state.
\<close>

subsection \<open>Platform primitives used by the sketch\<close>

text \<open>
  Modelled from the spec: the Arduino macro \<^verbatim>\<open>constrain(amt, low, high)\<close> is
  not part of the sources.  The spec describes its use as clamping \<^verbatim>\<open>pct\<close> to
  [-100,100] and re-clamping the result to [0,180].
\<close>
definition constrain :: "int \<Rightarrow> int \<Rightarrow> int \<Rightarrow> int" where
  "constrain amt low high = (if amt < low then low else if amt > high then high else amt)"

text \<open>
  Modelled from the spec: the Arduino function
  \<^verbatim>\<open>long map(long x, long in_min, long in_max, long out_min, long out_max)\<close> is not
  part of the sources.  The spec describes it as the integer proportional map from
  the input domain onto the output range that truncates toward zero and does not
  round; the division is therefore C's signed division \<open>sdiv\<close>.  The sketch only
  calls it with the constant domain [-100,100], so the divisor is always 200.
\<close>
definition map_long :: "int \<Rightarrow> int \<Rightarrow> int \<Rightarrow> int \<Rightarrow> int \<Rightarrow> int" where
  "map_long x in_min in_max out_min out_max =
     ((x - in_min) * (out_max - out_min)) sdiv (in_max - in_min) + out_min"

subsection \<open>Data model\<close>

text \<open>\<^verbatim>\<open>enum MotorType\<close>, in declaration order.\<close>
datatype MotorType = MG90_CR | MG90_Degree | N20Plus | STD_SERVO | Victor_SPX | Talon_SRX | CUSTOM

text \<open>
  \<^verbatim>\<open>struct MotorTypeConfig\<close>.  The \<^verbatim>\<open>float\<close> fields only ever hold the literals of
  the table below and are copied, never computed with.
\<close>
record MotorTypeConfig =
  type :: MotorType
  pwmFreq :: real
  minPulseUs :: int
  maxPulseUs :: int
  inputMin :: real
  inputMax :: real

definition motorTypeConfigs :: "MotorTypeConfig list" where
  "motorTypeConfigs =
    [ \<lparr>type = MG90_CR,     pwmFreq = 50, minPulseUs = 500,  maxPulseUs = 2500, inputMin = -1, inputMax = 1\<rparr>,
      \<lparr>type = MG90_Degree, pwmFreq = 50, minPulseUs = 500,  maxPulseUs = 2500, inputMin = 1,  inputMax = 180\<rparr>,
      \<lparr>type = N20Plus,     pwmFreq = 50, minPulseUs = 1000, maxPulseUs = 2000, inputMin = -1, inputMax = 1\<rparr>,
      \<lparr>type = Victor_SPX,  pwmFreq = 50, minPulseUs = 1000, maxPulseUs = 2000, inputMin = -1, inputMax = 1\<rparr>,
      \<lparr>type = Talon_SRX,   pwmFreq = 50, minPulseUs = 1000, maxPulseUs = 2000, inputMin = -1, inputMax = 1\<rparr>,
      \<lparr>type = STD_SERVO,   pwmFreq = 50, minPulseUs = 1000, maxPulseUs = 2000, inputMin = 0,  inputMax = 180\<rparr> ]"

text \<open>\<^verbatim>\<open>const uint8_t IO_PINS[13]\<close>; index 0 is a placeholder, slots are 1..12.\<close>
definition IO_PINS :: "nat list" where
  "IO_PINS = [0, 32, 25, 26, 27, 14, 12, 13, 15, 2, 4, 22, 21]"

text \<open>
  An \<^verbatim>\<open>ESP32Servo\<close> object, seen from the sketch: what the sketch has told it.
  \<open>written\<close> is the argument of the last \<^verbatim>\<open>write\<close> call, \<open>None\<close> before the first.
\<close>
record Servo =
  periodHertz :: "real option"
  attached :: "(nat \<times> int \<times> int) option"
  written :: "int option"

definition setPeriodHertz :: "real \<Rightarrow> Servo \<Rightarrow> Servo" where
  "setPeriodHertz hz sv = sv\<lparr>periodHertz := Some hz\<rparr>"

definition attach :: "nat \<Rightarrow> int \<Rightarrow> int \<Rightarrow> Servo \<Rightarrow> Servo" where
  "attach pin lo hi sv = sv\<lparr>attached := Some (pin, lo, hi)\<rparr>"

definition Servo_write :: "int \<Rightarrow> Servo \<Rightarrow> Servo" where
  "Servo_write v sv = sv\<lparr>written := Some v\<rparr>"

datatype CRGB = CRGB (red: "8 word") (green: "8 word") (blue: "8 word")

text \<open>
  The global state of the sketch.  \<^verbatim>\<open>Servo MotorOutput[13]\<close> is a total function on
  its indices; every index the modelled code uses is either a loop counter within
  1..12 or is checked against the array size explicitly.
\<close>
record robot =
  highSpeed :: int
  lowSpeed :: int
  driveSpeed :: int
  speed :: string
  leds :: "CRGB list"
  MotorOutput :: "nat \<Rightarrow> Servo"

definition LED_COUNT :: nat where
  "LED_COUNT = 4"

text \<open>The globals as their initialisers leave them, before \<^verbatim>\<open>setup()\<close> runs.\<close>
definition power_on :: robot where
  "power_on =
     \<lparr> highSpeed = 90, lowSpeed = 60, driveSpeed = 60, speed = ''low'',
       leds = replicate LED_COUNT (CRGB 0 0 0),
       MotorOutput = (\<lambda>_. \<lparr>periodHertz = None, attached = None, written = None\<rparr>) \<rparr>"

subsection \<open>Motor profiles and slot configuration\<close>

text \<open>
  The range-for loop at the head of \<^verbatim>\<open>ConfigureMotorOutput\<close>: the three locals
  start at the defaults the caller passes in \<open>cur\<close>, and the first entry whose
  \<open>type\<close> matches overwrites them and leaves the loop.
\<close>
fun scan_motorTypeConfigs ::
  "MotorTypeConfig list \<Rightarrow> MotorType \<Rightarrow> real \<times> int \<times> int \<Rightarrow> real \<times> int \<times> int" where
  "scan_motorTypeConfigs [] motorType cur = cur"
| "scan_motorTypeConfigs (cfg # rest) motorType cur =
     (if type cfg = motorType then (pwmFreq cfg, minPulseUs cfg, maxPulseUs cfg)
      else scan_motorTypeConfigs rest motorType cur)"

text \<open>
  \<^verbatim>\<open>ConfigureMotorOutput(slot, motorType, startupPositionDeg)\<close>.  The source indexes
  \<^verbatim>\<open>IO_PINS\<close> and \<^verbatim>\<open>MotorOutput\<close> without a check; an index past the thirteen
  elements is undefined behaviour and is \<open>None\<close> here.
\<close>
definition ConfigureMotorOutput :: "nat \<Rightarrow> MotorType \<Rightarrow> int \<Rightarrow> robot \<Rightarrow> robot option" where
  "ConfigureMotorOutput slot motorType startupPositionDeg st =
     (case scan_motorTypeConfigs motorTypeConfigs motorType (50, 1000, 2000) of
        (freq, lo, hi) \<Rightarrow>
          if slot < length IO_PINS then
            let pin = IO_PINS ! slot;
                sv = Servo_write startupPositionDeg
                       (attach pin lo hi (setPeriodHertz freq (MotorOutput st slot)))
            in Some (st\<lparr>MotorOutput := (MotorOutput st)(slot := sv)\<rparr>)
          else None)"

subsection \<open>LED helpers\<close>

text \<open>
  \<^verbatim>\<open>fill_solid\<close> overwrites the first \<open>n\<close> elements of the colour buffer;
  \<^verbatim>\<open>FastLED.show()\<close> only transmits the buffer and changes no state.
\<close>

definition fill_solid :: "CRGB list \<Rightarrow> nat \<Rightarrow> CRGB \<Rightarrow> CRGB list" where
  "fill_solid xs n c = replicate (min n (length xs)) c @ drop n xs"

definition LED_SetSolid :: "8 word \<Rightarrow> 8 word \<Rightarrow> 8 word \<Rightarrow> robot \<Rightarrow> robot" where
  "LED_SetSolid r g b st = st\<lparr>leds := fill_solid (leds st) LED_COUNT (CRGB r g b)\<rparr>"

definition LED_Red :: "robot \<Rightarrow> robot" where "LED_Red = LED_SetSolid 255 0 0"
definition LED_Green :: "robot \<Rightarrow> robot" where "LED_Green = LED_SetSolid 0 255 0"
definition LED_Blue :: "robot \<Rightarrow> robot" where "LED_Blue = LED_SetSolid 0 0 255"
definition LED_White :: "robot \<Rightarrow> robot" where "LED_White = LED_SetSolid 255 255 255"
definition LED_Yellow :: "robot \<Rightarrow> robot" where "LED_Yellow = LED_SetSolid 255 255 0"
definition LED_Cyan :: "robot \<Rightarrow> robot" where "LED_Cyan = LED_SetSolid 0 255 255"
definition LED_Purple :: "robot \<Rightarrow> robot" where "LED_Purple = LED_SetSolid 255 0 255"

subsection \<open>Drive layer\<close>

definition percentToServoAngle :: "int \<Rightarrow> int" where
  "percentToServoAngle pct =
     (let pct' = constrain pct (-100) 100;
          ang = map_long pct' (-100) 100 0 180
      in constrain ang 0 180)"

text \<open>
  The loop \<^verbatim>\<open>for (int s = first; s <= final; ++s) MotorOutput[s].write(angle)\<close> that
  the three writers share, started at counter value \<open>s\<close>.
\<close>
function write_slots :: "nat \<Rightarrow> nat \<Rightarrow> int \<Rightarrow> (nat \<Rightarrow> Servo) \<Rightarrow> (nat \<Rightarrow> Servo)" where
  "write_slots s final angle M =
     (if s \<le> final then write_slots (Suc s) final angle (M(s := Servo_write angle (M s))) else M)"
  by pat_completeness auto
termination
  by (relation "measure (\<lambda>(s, final, angle, M). Suc final - s)") auto

declare write_slots.simps [simp del]

definition Left_Group_Write :: "int \<Rightarrow> robot \<Rightarrow> robot" where
  "Left_Group_Write pct st =
     (let angle = percentToServoAngle pct
      in st\<lparr>MotorOutput := write_slots 1 6 angle (MotorOutput st)\<rparr>)"

definition Right_Group_Write :: "int \<Rightarrow> robot \<Rightarrow> robot" where
  "Right_Group_Write pct st =
     (let angle = percentToServoAngle pct
      in st\<lparr>MotorOutput := write_slots 7 12 angle (MotorOutput st)\<rparr>)"

definition Motor_Control :: "int \<Rightarrow> int \<Rightarrow> robot \<Rightarrow> robot" where
  "Motor_Control LeftPct RightPct st = Right_Group_Write RightPct (Left_Group_Write LeftPct st)"

definition Motor_STOP :: "robot \<Rightarrow> robot" where
  "Motor_STOP st = st\<lparr>MotorOutput := write_slots 1 12 90 (MotorOutput st)\<rparr>"

subsection \<open>Command bindings\<close>

text \<open>
  The unary minus of the sketch on its 32-bit \<^verbatim>\<open>int\<close>: the two's-complement
  negation of the target, reduced into the range from \<open>- 2147483648\<close> to \<open>2147483647\<close>.
  It is the mathematical negation everywhere but at the minimum, where the language
  leaves the overflow undefined and the target wraps around to the minimum itself.
\<close>
definition int32_neg :: "int \<Rightarrow> int" where
  "int32_neg x = (- x + 2147483648) mod 4294967296 - 2147483648"

definition functionForward :: "robot \<Rightarrow> robot" where
  "functionForward st = Motor_Control (int32_neg (driveSpeed st)) (driveSpeed st) st"

definition functionBackward :: "robot \<Rightarrow> robot" where
  "functionBackward st = Motor_Control (driveSpeed st) (int32_neg (driveSpeed st)) st"

definition functionLeft :: "robot \<Rightarrow> robot" where
  "functionLeft st = Motor_Control (int32_neg (driveSpeed st)) (int32_neg (driveSpeed st)) st"

definition functionRight :: "robot \<Rightarrow> robot" where
  "functionRight st = Motor_Control (driveSpeed st) (driveSpeed st) st"

definition functionStop :: "robot \<Rightarrow> robot" where
  "functionStop st = Motor_STOP st"

definition functionA :: "robot \<Rightarrow> robot" where "functionA st = st"
definition functionB :: "robot \<Rightarrow> robot" where "functionB st = st"
definition functionC :: "robot \<Rightarrow> robot" where "functionC st = st"
definition functionD :: "robot \<Rightarrow> robot" where "functionD st = st"

subsection \<open>The HTTP command handler\<close>

text \<open>
  What \<^verbatim>\<open>cmd_handler\<close> sends back: 404 when the query has no usable \<^verbatim>\<open>go\<close> value,
  500 when \<^verbatim>\<open>res\<close> is non-zero, and the empty 200 with the cross-origin header
  otherwise.
\<close>
datatype http_reply = Reply_404 | Reply_500 | Reply_200

text \<open>
  \<^verbatim>\<open>cmd_handler\<close>.  The argument is the outcome of the two query-parsing calls:
  \<open>None\<close> when either does not return \<^verbatim>\<open>ESP_OK\<close>, and \<open>Some variable\<close> with the
  contents of the buffer \<^verbatim>\<open>variable\<close> otherwise; a request whose value the parser
  does not deliver into the 32-byte buffer is among the \<open>None\<close> cases.  The branches
  of the decoder are in the order of the source.
\<close>
definition cmd_handler :: "string option \<Rightarrow> robot \<Rightarrow> http_reply \<times> robot" where
  "cmd_handler query st =
     (case query of
        None \<Rightarrow> (Reply_404, st)
      | Some variable \<Rightarrow>
          let st0 = LED_Green st;
              (res, st') =
                (if variable = ''high'' then
                   (0::int, LED_Purple (st0\<lparr>driveSpeed := highSpeed st0, speed := ''High''\<rparr>))
                 else if variable = ''low'' then
                   (0, LED_Yellow (st0\<lparr>driveSpeed := lowSpeed st0, speed := ''Low''\<rparr>))
                 else if variable = ''forward'' then (0, functionForward st0)
                 else if variable = ''left'' then (0, functionLeft st0)
                 else if variable = ''right'' then (0, functionRight st0)
                 else if variable = ''backward'' then (0, functionBackward st0)
                 else if variable = ''stop'' then (0, LED_Red (functionStop st0))
                 else if variable = ''functionA'' then (0, functionA (LED_Cyan st0))
                 else if variable = ''functionB'' then (0, functionB (LED_Cyan st0))
                 else if variable = ''functionC'' then (0, functionC (LED_Cyan st0))
                 else if variable = ''functionD'' then (0, functionD (LED_Cyan st0))
                 else (-1, Motor_STOP (LED_Red st0)))
          in if res \<noteq> 0 then (Reply_500, st') else (Reply_200, st'))"

text \<open>The handler run on a sequence of requests, each on the state the last one left.\<close>
fun run :: "string option list \<Rightarrow> robot \<Rightarrow> robot" where
  "run [] st = st"
| "run (q # qs) st = run qs (snd (cmd_handler q st))"

subsection \<open>Start-up\<close>

text \<open>
  The loop \<^verbatim>\<open>for (int s = 1; s <= 11; ++s) ConfigureMotorOutput(s, N20Plus, 90)\<close> of
  \<^verbatim>\<open>setup()\<close>, started at counter value \<open>s\<close>.
\<close>
function configure_slots :: "nat \<Rightarrow> robot \<Rightarrow> robot option" where
  "configure_slots s st =
     (if s \<le> 11 then
        (case ConfigureMotorOutput s N20Plus 90 st of
           None \<Rightarrow> None
         | Some st' \<Rightarrow> configure_slots (Suc s) st')
      else Some st)"
  by pat_completeness auto
termination
  by (relation "measure (\<lambda>(s, st). 12 - s)") auto

declare configure_slots.simps [simp del]

text \<open>The part of \<^verbatim>\<open>setup()\<close> that touches the modelled state.\<close>
definition setup_sketch :: "robot \<Rightarrow> robot option" where
  "setup_sketch st =
     (case configure_slots 1 (LED_Blue st) of
        None \<Rightarrow> None
      | Some st1 \<Rightarrow>
          (case ConfigureMotorOutput 12 MG90_CR 90 st1 of
             None \<Rightarrow> None
           | Some st2 \<Rightarrow> Some (LED_White st2)))"

subsection \<open>The specification's vocabulary\<close>

text \<open>The closed command set of the specification, as a list of tokens.\<close>
definition recognized :: "string list" where
  "recognized = [''forward'', ''backward'', ''left'', ''right'', ''stop'', ''low'', ''high'',
                 ''functionA'', ''functionB'', ''functionC'', ''functionD'']"

text \<open>
  The specification's description of a drive: one angle for the left group, slots
  1..6, one for the right group, slots 7..12, and no other element touched.
\<close>
definition drive_result :: "int \<Rightarrow> int \<Rightarrow> robot \<Rightarrow> nat \<Rightarrow> int option" where
  "drive_result leftPct rightPct st k =
     (if 1 \<le> k \<and> k \<le> 6 then Some (percentToServoAngle leftPct)
      else if 7 \<le> k \<and> k \<le> 12 then Some (percentToServoAngle rightPct)
      else written (MotorOutput st k))"

text \<open>The sign table of the specification: the factors of the left and right group.\<close>
definition sign_table :: "string \<Rightarrow> (int \<times> int) option" where
  "sign_table c =
     (if c = ''forward'' then Some (-1, 1)
      else if c = ''backward'' then Some (1, -1)
      else if c = ''left'' then Some (-1, -1)
      else if c = ''right'' then Some (1, 1)
      else None)"

text \<open>
  The speed mode the specification calls selected after a sequence of requests: the
  one named by the last \<open>high\<close> or \<open>low\<close> among them, if there is one.
\<close>
datatype SpeedMode = Low | High

fun lastSelection :: "string option list \<Rightarrow> SpeedMode option" where
  "lastSelection [] = None"
| "lastSelection (q # qs) =
     (case lastSelection qs of
        Some m \<Rightarrow> Some m
      | None \<Rightarrow> if q = Some ''high'' then Some High else if q = Some ''low'' then Some Low else None)"

text \<open>Every slot 1..12 holds a written position within [0,180].\<close>
definition slots_in_range :: "robot \<Rightarrow> bool" where
  "slots_in_range st =
     (\<forall>k. 1 \<le> k \<and> k \<le> 12 \<longrightarrow> (\<exists>a. written (MotorOutput st k) = Some a \<and> 0 \<le> a \<and> a \<le> 180))"

section \<open>Properties of the angle conversion\<close>

lemma constrain_bounds: "low \<le> high \<Longrightarrow> low \<le> constrain amt low high \<and> constrain amt low high \<le> high"
  by (simp add: constrain_def)

lemma constrain_mono: "low \<le> high \<Longrightarrow> a \<le> b \<Longrightarrow> constrain a low high \<le> constrain b low high"
  by (simp add: constrain_def)

lemma constrain_idem: "low \<le> high \<Longrightarrow> constrain (constrain amt low high) low high = constrain amt low high"
  by (simp add: constrain_def)

lemma sdiv_nonneg: "0 \<le> a \<Longrightarrow> 0 < b \<Longrightarrow> a sdiv b = a div (b::int)"
  by (cases "a = 0") (simp_all add: signed_divide_int_def)

lemma map_long_percent: "- 100 \<le> x \<Longrightarrow> map_long x (-100) 100 0 180 = ((x + 100) * 180) div 200"
  by (simp add: map_long_def sdiv_nonneg)

lemma percentToServoAngle_range: "0 \<le> percentToServoAngle pct \<and> percentToServoAngle pct \<le> 180"
  unfolding percentToServoAngle_def Let_def by (rule constrain_bounds) simp


lemma percentToServoAngle_in_domain:
  assumes "- 100 \<le> pct" and "pct \<le> 100"
  shows "percentToServoAngle pct = ((pct + 100) * 180) div 200"
proof -
  have c: "constrain pct (-100) 100 = pct"
    using assms by (simp add: constrain_def)
  have lo: "0 \<le> ((pct + 100) * 180) div 200"
    using assms by (simp add: pos_imp_zdiv_nonneg_iff)
  have "(pct + 100) * 180 \<le> 200 * 180"
    using assms by simp
  then have "((pct + 100) * 180) div 200 \<le> (200 * 180) div 200"
    by (rule zdiv_mono1) simp
  then have hi: "((pct + 100) * 180) div 200 \<le> 180"
    by simp
  show ?thesis
    unfolding percentToServoAngle_def Let_def c
    using assms lo hi by (simp add: map_long_percent constrain_def)
qed

lemma percentToServoAngle_clamps:
  "percentToServoAngle pct = percentToServoAngle (constrain pct (-100) 100)"
  by (simp add: percentToServoAngle_def constrain_idem)

text \<open>
  C1.  For every integer \<open>pct\<close> in [-100,100], \<open>percentToServoAngle pct\<close> lies in
  [0,180] and is the integer proportional map of \<open>pct\<close> from [-100,100] onto [0,180]
  with the quotient cut off, not rounded: it is the floor of \<open>(pct + 100) * 180 / 200\<close>,
  which is also the quotient truncated toward zero because the dividend is not
  negative.  At the boundaries, -100 gives 0, 0 gives 90 and 100 gives 180; 1 gives 90
  although the exact quotient is 90.9.
\<close>
theorem percentToServoAngle_linear_map:
  "(- 100 \<le> pct \<and> pct \<le> 100 \<longrightarrow>
     0 \<le> percentToServoAngle pct \<and> percentToServoAngle pct \<le> 180 \<and>
     percentToServoAngle pct = ((pct + 100) * 180) div 200 \<and>
     percentToServoAngle pct = ((pct + 100) * 180) sdiv 200 \<and>
     percentToServoAngle pct = \<lfloor>(real_of_int pct + 100) * 180 / 200\<rfloor>) \<and>
   percentToServoAngle (-100) = 0 \<and> percentToServoAngle 0 = 90 \<and>
   percentToServoAngle 100 = 180 \<and> percentToServoAngle 1 = 90"
proof (intro conjI impI)
  show "percentToServoAngle (-100) = 0" "percentToServoAngle 0 = 90"
    "percentToServoAngle 100 = 180" "percentToServoAngle 1 = 90"
    by (simp_all add: percentToServoAngle_in_domain)
next
  assume dom: "- 100 \<le> pct \<and> pct \<le> 100"
  then have eq: "percentToServoAngle pct = ((pct + 100) * 180) div 200"
    by (simp add: percentToServoAngle_in_domain)
  have s: "((pct + 100) * 180) sdiv 200 = ((pct + 100) * 180) div 200"
    using dom by (intro sdiv_nonneg) simp_all
  have "\<lfloor>real_of_int ((pct + 100) * 180) / real_of_int 200\<rfloor> = ((pct + 100) * 180) div 200"
    by (rule floor_divide_of_int_eq)
  then have f: "\<lfloor>(real_of_int pct + 100) * 180 / 200\<rfloor> = ((pct + 100) * 180) div 200"
    by simp
  show "0 \<le> percentToServoAngle pct" "percentToServoAngle pct \<le> 180"
    using percentToServoAngle_range [of pct] by simp_all
  show "percentToServoAngle pct = ((pct + 100) * 180) div 200"
    by (fact eq)
  show "percentToServoAngle pct = ((pct + 100) * 180) sdiv 200"
    using eq s by simp
  show "percentToServoAngle pct = \<lfloor>(real_of_int pct + 100) * 180 / 200\<rfloor>"
    using eq f by simp
qed

theorem percentToServoAngle_linear_map_witness:
  "(- 100 \<le> (37::int) \<and> (37::int) \<le> 100) \<and> percentToServoAngle 37 = 123 \<and>
   0 \<le> percentToServoAngle 37 \<and> percentToServoAngle 37 \<le> 180"
  using percentToServoAngle_linear_map [of 37] by simp

text \<open>
  C7.  An input outside [-100,100] is clamped before it is mapped: the angle of
  \<open>pct\<close> is the angle of the clamped value, which is 100 above the domain and -100
  below it; in particular 500 gives the angle of 100 and -500 the angle of -100.
\<close>
theorem percentToServoAngle_outside_domain:
  "(pct < - 100 \<or> 100 < pct \<longrightarrow>
      percentToServoAngle pct = percentToServoAngle (constrain pct (-100) 100)) \<and>
   (100 < pct \<longrightarrow> percentToServoAngle pct = percentToServoAngle 100) \<and>
   (pct < - 100 \<longrightarrow> percentToServoAngle pct = percentToServoAngle (-100)) \<and>
   percentToServoAngle 500 = percentToServoAngle 100 \<and>
   percentToServoAngle (-500) = percentToServoAngle (-100)"
proof -
  have up: "percentToServoAngle p = percentToServoAngle 100" if "100 < p" for p
    using that percentToServoAngle_clamps [of p] by (simp add: constrain_def)
  have down: "percentToServoAngle p = percentToServoAngle (-100)" if "p < - 100" for p
    using that percentToServoAngle_clamps [of p] by (simp add: constrain_def)
  show ?thesis
    using percentToServoAngle_clamps [of pct] up [of pct] down [of pct] up [of 500] down [of "-500"]
    by simp
qed

theorem percentToServoAngle_outside_domain_witness:
  "(100 < (250::int)) \<and> percentToServoAngle 250 = 180 \<and>
   ((-101::int) < - 100) \<and> percentToServoAngle (-101) = 0"
  using percentToServoAngle_outside_domain [of 250] percentToServoAngle_outside_domain [of "-101"]
  by (simp add: percentToServoAngle_in_domain)

text \<open>
  C9.  \<open>percentToServoAngle\<close> is monotone over all integers: a larger percentage
  never gives a smaller angle.
\<close>
theorem percentToServoAngle_mono:
  "a \<le> b \<Longrightarrow> percentToServoAngle a \<le> percentToServoAngle b"
proof -
  assume ab: "a \<le> b"
  let ?a = "constrain a (-100) 100" and ?b = "constrain b (-100) 100"
  have ca: "- 100 \<le> ?a \<and> ?a \<le> 100" and cb: "- 100 \<le> ?b \<and> ?b \<le> 100"
    by (simp_all add: constrain_bounds)
  have "?a \<le> ?b"
    using ab by (simp add: constrain_mono)
  then have "(?a + 100) * 180 \<le> (?b + 100) * 180"
    by simp
  then have "((?a + 100) * 180) div 200 \<le> ((?b + 100) * 180) div 200"
    by (rule zdiv_mono1) simp
  then have "percentToServoAngle ?a \<le> percentToServoAngle ?b"
    using ca cb by (simp add: percentToServoAngle_in_domain)
  then show "percentToServoAngle a \<le> percentToServoAngle b"
    using percentToServoAngle_clamps [of a] percentToServoAngle_clamps [of b] by simp
qed

theorem percentToServoAngle_mono_witness:
  "(-60::int) \<le> 90 \<and> percentToServoAngle (-60) = 36 \<and> percentToServoAngle 90 = 171 \<and>
   percentToServoAngle (-60) \<le> percentToServoAngle 90"
  using percentToServoAngle_mono [of "-60" 90] by (simp add: percentToServoAngle_in_domain)


section \<open>Properties of the drive layer and the command handler\<close>

lemma write_slots_apply:
  "write_slots s final angle M k =
     (if s \<le> k \<and> k \<le> final then Servo_write angle (M k) else M k)"
proof (induction s final angle M rule: write_slots.induct)
  case (1 s final angle M)
  show ?case
  proof (cases "s \<le> final")
    case True
    let ?M = "M(s := Servo_write angle (M s))"
    have "write_slots s final angle M k = write_slots (Suc s) final angle ?M k"
      using True by (subst write_slots.simps) simp
    also have "\<dots> = (if Suc s \<le> k \<and> k \<le> final then Servo_write angle (?M k) else ?M k)"
      using True by (rule "1.IH")
    also have "\<dots> = (if s \<le> k \<and> k \<le> final then Servo_write angle (M k) else M k)"
      using True by (cases "k = s") auto
    finally show ?thesis .
  next
    case False
    then show ?thesis
      by (subst write_slots.simps) auto
  qed
qed

lemmas LED_defs =
  LED_Red_def LED_Green_def LED_Blue_def LED_White_def LED_Yellow_def LED_Cyan_def
  LED_Purple_def

lemma LED_SetSolid_fields:
  "MotorOutput (LED_SetSolid r g b st) = MotorOutput st"
  "driveSpeed (LED_SetSolid r g b st) = driveSpeed st"
  "lowSpeed (LED_SetSolid r g b st) = lowSpeed st"
  "highSpeed (LED_SetSolid r g b st) = highSpeed st"
  "speed (LED_SetSolid r g b st) = speed st"
  by (simp_all add: LED_SetSolid_def)

lemma Motor_Control_fields:
  "driveSpeed (Motor_Control l r st) = driveSpeed st"
  "lowSpeed (Motor_Control l r st) = lowSpeed st"
  "highSpeed (Motor_Control l r st) = highSpeed st"
  "speed (Motor_Control l r st) = speed st"
  "leds (Motor_Control l r st) = leds st"
  by (simp_all add: Motor_Control_def Left_Group_Write_def Right_Group_Write_def Let_def)

lemma Motor_STOP_fields:
  "driveSpeed (Motor_STOP st) = driveSpeed st"
  "lowSpeed (Motor_STOP st) = lowSpeed st"
  "highSpeed (Motor_STOP st) = highSpeed st"
  "speed (Motor_STOP st) = speed st"
  "leds (Motor_STOP st) = leds st"
  by (simp_all add: Motor_STOP_def)

lemma written_Motor_Control:
  "written (MotorOutput (Motor_Control l r st) k) = drive_result l r st k"
  by (simp add: Motor_Control_def Left_Group_Write_def Right_Group_Write_def Let_def
      write_slots_apply drive_result_def Servo_write_def)

lemma MotorOutput_Motor_STOP:
  "MotorOutput (Motor_STOP st) k =
     (if 1 \<le> k \<and> k \<le> 12 then (MotorOutput st k)\<lparr>written := Some 90\<rparr> else MotorOutput st k)"
  by (simp add: Motor_STOP_def write_slots_apply Servo_write_def)

lemma cmd_handler_drive:
  "cmd_handler (Some ''forward'') st = (Reply_200, functionForward (LED_Green st))"
  "cmd_handler (Some ''backward'') st = (Reply_200, functionBackward (LED_Green st))"
  "cmd_handler (Some ''left'') st = (Reply_200, functionLeft (LED_Green st))"
  "cmd_handler (Some ''right'') st = (Reply_200, functionRight (LED_Green st))"
  by (simp_all add: cmd_handler_def)

lemma cmd_handler_stop:
  "cmd_handler (Some ''stop'') st = (Reply_200, LED_Red (Motor_STOP (LED_Green st)))"
  by (simp add: cmd_handler_def functionStop_def)

lemma cmd_handler_select:
  "cmd_handler (Some ''high'') st =
     (Reply_200, LED_Purple ((LED_Green st)\<lparr>driveSpeed := highSpeed st, speed := ''High''\<rparr>))"
  "cmd_handler (Some ''low'') st =
     (Reply_200, LED_Yellow ((LED_Green st)\<lparr>driveSpeed := lowSpeed st, speed := ''Low''\<rparr>))"
  by (simp_all add: cmd_handler_def LED_Green_def LED_SetSolid_fields)

lemma cmd_handler_unknown:
  "variable \<notin> set recognized \<Longrightarrow>
     cmd_handler (Some variable) st = (Reply_500, Motor_STOP (LED_Red (LED_Green st)))"
  by (simp add: cmd_handler_def recognized_def)

lemma cmd_handler_recognized:
  "variable \<in> set recognized \<Longrightarrow> fst (cmd_handler (Some variable) st) = Reply_200"
  by (auto simp: cmd_handler_def recognized_def Let_def)


lemma int32_neg_in_range:
  assumes "- 2147483648 < x" and "x < 2147483648"
  shows "int32_neg x = - x"
proof -
  have "(- x + 2147483648) mod 4294967296 = - x + 2147483648"
    using assms by (intro mod_pos_pos_trivial) simp_all
  then show ?thesis
    by (simp add: int32_neg_def)
qed

lemma int32_neg_minimum: "int32_neg (- 2147483648) = - 2147483648"
  by (simp add: int32_neg_def)

lemma functionForward_at_minimum:
  "written (MotorOutput (functionForward (st\<lparr>driveSpeed := - 2147483648\<rparr>)) 1) = Some 0"
proof -
  have "percentToServoAngle (- 2147483648) = percentToServoAngle (- 100)"
    using percentToServoAngle_clamps [of "- 2147483648"] by (simp add: constrain_def)
  then show ?thesis
    by (simp add: functionForward_def int32_neg_minimum written_Motor_Control drive_result_def
        percentToServoAngle_in_domain)
qed

text \<open>
  C2.  Whatever value the current \<open>driveSpeed\<close> has among the 32-bit integers whose
  negation is a 32-bit integer too, the command \<open>forward\<close> writes the angle of
  \<open>- driveSpeed\<close> to slots 1..6 and the angle of \<open>driveSpeed\<close> to slots 7..12;
  \<open>backward\<close> uses the signs plus and minus, \<open>left\<close> minus and minus, \<open>right\<close> plus
  and plus.  Each is the left-group write followed by the right-group write, no
  other array element is written, and the reply is the 200.
\<close>
theorem drive_commands_sign_convention:
  "- 2147483648 < driveSpeed st \<and> driveSpeed st < 2147483648 \<Longrightarrow>
   (let sp = driveSpeed st; g = LED_Green st in
     cmd_handler (Some ''forward'') st =
       (Reply_200, Right_Group_Write sp (Left_Group_Write (- sp) g)) \<and>
     cmd_handler (Some ''backward'') st =
       (Reply_200, Right_Group_Write (- sp) (Left_Group_Write sp g)) \<and>
     cmd_handler (Some ''left'') st =
       (Reply_200, Right_Group_Write (- sp) (Left_Group_Write (- sp) g)) \<and>
     cmd_handler (Some ''right'') st =
       (Reply_200, Right_Group_Write sp (Left_Group_Write sp g)) \<and>
     written (MotorOutput (snd (cmd_handler (Some ''forward'') st)) k) =
       drive_result (- sp) sp st k \<and>
     written (MotorOutput (snd (cmd_handler (Some ''backward'') st)) k) =
       drive_result sp (- sp) st k \<and>
     written (MotorOutput (snd (cmd_handler (Some ''left'') st)) k) =
       drive_result (- sp) (- sp) st k \<and>
     written (MotorOutput (snd (cmd_handler (Some ''right'') st)) k) =
       drive_result sp sp st k)"
proof -
  assume bound: "- 2147483648 < driveSpeed st \<and> driveSpeed st < 2147483648"
  then have n: "int32_neg (driveSpeed st) = - driveSpeed st"
    by (simp add: int32_neg_in_range)
  have g: "driveSpeed (LED_Green st) = driveSpeed st"
    by (simp add: LED_Green_def LED_SetSolid_fields)
  have d: "drive_result l r (LED_Green st) k = drive_result l r st k" for l r
    by (simp add: drive_result_def LED_Green_def LED_SetSolid_fields)
  have steps:
    "cmd_handler (Some ''forward'') st =
       (Reply_200, Motor_Control (- driveSpeed st) (driveSpeed st) (LED_Green st))"
    "cmd_handler (Some ''backward'') st =
       (Reply_200, Motor_Control (driveSpeed st) (- driveSpeed st) (LED_Green st))"
    "cmd_handler (Some ''left'') st =
       (Reply_200, Motor_Control (- driveSpeed st) (- driveSpeed st) (LED_Green st))"
    "cmd_handler (Some ''right'') st =
       (Reply_200, Motor_Control (driveSpeed st) (driveSpeed st) (LED_Green st))"
    by (simp_all add: cmd_handler_drive functionForward_def functionBackward_def
        functionLeft_def functionRight_def g n)
  show ?thesis
    unfolding Let_def steps snd_conv written_Motor_Control d
    by (simp add: Motor_Control_def)
qed

theorem drive_commands_sign_convention_witness:
  "(- 2147483648 < driveSpeed power_on \<and> driveSpeed power_on < 2147483648) \<and>
   written (MotorOutput (snd (cmd_handler (Some ''forward'') power_on)) 3) = Some 36 \<and>
   written (MotorOutput (snd (cmd_handler (Some ''forward'') power_on)) 9) = Some 144 \<and>
   written (MotorOutput (snd (cmd_handler (Some ''left'') power_on)) 12) = Some 36 \<and>
   written (MotorOutput (snd (cmd_handler (Some ''right'') power_on)) 1) = Some 144 \<and>
   written (MotorOutput (snd (cmd_handler (Some ''backward'') power_on)) 0) = None"
proof -
  have sp: "driveSpeed power_on = 60"
    by (simp add: power_on_def)
  have bound: "- 2147483648 < driveSpeed power_on \<and> driveSpeed power_on < 2147483648"
    by (simp add: sp)
  note claim = drive_commands_sign_convention [OF bound, unfolded Let_def sp]
  have none: "written (MotorOutput power_on 0) = None"
    by (simp add: power_on_def)
  have "written (MotorOutput (snd (cmd_handler (Some ''forward'') power_on)) 3) =
      drive_result (- 60) 60 power_on 3"
    using claim [of 3] by blast
  moreover have "written (MotorOutput (snd (cmd_handler (Some ''forward'') power_on)) 9) =
      drive_result (- 60) 60 power_on 9"
    using claim [of 9] by blast
  moreover have "written (MotorOutput (snd (cmd_handler (Some ''left'') power_on)) 12) =
      drive_result (- 60) (- 60) power_on 12"
    using claim [of 12] by blast
  moreover have "written (MotorOutput (snd (cmd_handler (Some ''right'') power_on)) 1) =
      drive_result 60 60 power_on 1"
    using claim [of 1] by blast
  moreover have "written (MotorOutput (snd (cmd_handler (Some ''backward'') power_on)) 0) =
      drive_result 60 (- 60) power_on 0"
    using claim [of 0] by blast
  ultimately show ?thesis
    using none bound by (simp add: drive_result_def percentToServoAngle_in_domain)
qed

text \<open>
  C3.  From every state, and so after any earlier requests and under either speed
  mode, the command \<open>stop\<close> writes the literal 90 to each of the slots 1..12 and is
  answered with the 200.  The state it leaves is \<open>Motor_STOP\<close> applied between the
  two indicator changes, with no angle conversion, and the servo array it leaves is
  the same whatever \<open>highSpeed\<close>, \<open>lowSpeed\<close>, \<open>driveSpeed\<close> and \<open>speed\<close> hold.
\<close>
theorem stop_writes_neutral:
  "cmd_handler (Some ''stop'') st = (Reply_200, LED_Red (Motor_STOP (LED_Green st))) \<and>
   MotorOutput (Motor_STOP st) = write_slots 1 12 90 (MotorOutput st) \<and>
   (\<forall>k. 1 \<le> k \<and> k \<le> 12 \<longrightarrow>
      written (MotorOutput (snd (cmd_handler (Some ''stop'') st)) k) = Some 90) \<and>
   (\<forall>qs k. 1 \<le> k \<and> k \<le> 12 \<longrightarrow>
      written (MotorOutput (snd (cmd_handler (Some ''stop'') (run qs st))) k) = Some 90) \<and>
   MotorOutput (snd (cmd_handler (Some ''stop'')
       (st\<lparr>highSpeed := h, lowSpeed := l, driveSpeed := d, speed := m\<rparr>))) =
     MotorOutput (snd (cmd_handler (Some ''stop'') st))"
proof -
  have w: "written (MotorOutput (snd (cmd_handler (Some ''stop'') s)) k) = Some 90"
    if "1 \<le> k \<and> k \<le> 12" for s k
    using that
    by (simp add: cmd_handler_stop LED_Red_def LED_Green_def LED_SetSolid_fields
        MotorOutput_Motor_STOP)
  have i: "MotorOutput (snd (cmd_handler (Some ''stop'')
       (st\<lparr>highSpeed := h, lowSpeed := l, driveSpeed := d, speed := m\<rparr>))) =
     MotorOutput (snd (cmd_handler (Some ''stop'') st))"
    by (simp add: cmd_handler_stop LED_Red_def LED_Green_def LED_SetSolid_def Motor_STOP_def)
  show ?thesis
    using w i by (simp add: cmd_handler_stop Motor_STOP_def)
qed

theorem stop_writes_neutral_witness:
  "(1::nat) \<le> 5 \<and> (5::nat) \<le> 12 \<and>
   written (MotorOutput (snd (cmd_handler (Some ''forward'') power_on)) 5) = Some 36 \<and>
   written (MotorOutput (snd (cmd_handler (Some ''stop'')
      (run [Some ''high'', Some ''forward''] power_on))) 5) = Some 90"
proof -
  have "written (MotorOutput (snd (cmd_handler (Some ''forward'') power_on)) 5) = Some 36"
    by (simp add: cmd_handler_drive functionForward_def written_Motor_Control drive_result_def
        LED_Green_def LED_SetSolid_fields power_on_def int32_neg_in_range
        percentToServoAngle_in_domain)
  moreover have "(1::nat) \<le> 5 \<and> (5::nat) \<le> 12 \<longrightarrow>
      written (MotorOutput (snd (cmd_handler (Some ''stop'')
        (run [Some ''high'', Some ''forward''] power_on))) 5) = Some 90"
    using stop_writes_neutral [of power_on] by blast
  ultimately show ?thesis
    by simp
qed

text \<open>
  C4.  A token that is not, character for character, one of the eleven recognised
  ones is answered with the 500 and the fail-safe stop: every slot 1..12 holds 90
  afterwards, and the state left is the one the command \<open>stop\<close> leaves, which is
  answered with the 200 instead.  Every recognised token is answered with the 200.
\<close>
theorem unknown_command_fail_safe:
  "variable \<notin> set recognized \<Longrightarrow>
     fst (cmd_handler (Some variable) st) = Reply_500 \<and>
     (\<forall>k. 1 \<le> k \<and> k \<le> 12 \<longrightarrow>
        written (MotorOutput (snd (cmd_handler (Some variable) st)) k) = Some 90) \<and>
     snd (cmd_handler (Some variable) st) = snd (cmd_handler (Some ''stop'') st) \<and>
     fst (cmd_handler (Some ''stop'') st) = Reply_200 \<and>
     (\<forall>c \<in> set recognized. fst (cmd_handler (Some c) st) = Reply_200)"
proof -
  assume u: "variable \<notin> set recognized"
  have same: "Motor_STOP (LED_Red (LED_Green st)) = LED_Red (Motor_STOP (LED_Green st))"
    by (simp add: Motor_STOP_def LED_Red_def LED_SetSolid_def)
  have w: "\<forall>k. 1 \<le> k \<and> k \<le> 12 \<longrightarrow>
      written (MotorOutput (Motor_STOP (LED_Red (LED_Green st))) k) = Some 90"
    by (simp add: MotorOutput_Motor_STOP)
  show ?thesis
    using w same cmd_handler_recognized [of _ st]
    by (simp add: cmd_handler_unknown [OF u] cmd_handler_stop)
qed

theorem unknown_command_fail_safe_witness:
  "''banana'' \<notin> set recognized \<and> ''Forward'' \<notin> set recognized \<and> [] \<notin> set recognized \<and>
   cmd_handler (Some ''banana'') power_on = cmd_handler (Some [])  power_on \<and>
   fst (cmd_handler (Some ''banana'') power_on) = Reply_500 \<and>
   fst (cmd_handler (Some ''Forward'') power_on) = Reply_500 \<and>
   written (MotorOutput (snd (cmd_handler (Some ''banana'') power_on)) 12) = Some 90 \<and>
   ''stop'' \<in> set recognized \<and> fst (cmd_handler (Some ''stop'') power_on) = Reply_200"
proof -
  have u: "''banana'' \<notin> set recognized" "''Forward'' \<notin> set recognized" "[] \<notin> set recognized"
    by (simp_all add: recognized_def)
  have e: "cmd_handler (Some ''banana'') power_on = cmd_handler (Some []) power_on"
    by (simp add: cmd_handler_unknown u)
  have s: "''stop'' \<in> set recognized"
    by (simp add: recognized_def)
  have "fst (cmd_handler (Some ''banana'') power_on) = Reply_500"
    using unknown_command_fail_safe [OF u(1), of power_on] by blast
  moreover have "fst (cmd_handler (Some ''Forward'') power_on) = Reply_500"
    using unknown_command_fail_safe [OF u(2), of power_on] by blast
  moreover have "(1::nat) \<le> 12 \<and> (12::nat) \<le> 12 \<longrightarrow>
      written (MotorOutput (snd (cmd_handler (Some ''banana'') power_on)) 12) = Some 90"
    using unknown_command_fail_safe [OF u(1), of power_on] by blast
  moreover have "fst (cmd_handler (Some ''stop'') power_on) = Reply_200"
    using unknown_command_fail_safe [OF u(1), of power_on] by blast
  ultimately show ?thesis
    using u e s by simp
qed

text \<open>
  C10.  On an unrecognised token the handler leaves the speed selection alone:
  \<open>driveSpeed\<close>, \<open>speed\<close>, \<open>lowSpeed\<close> and \<open>highSpeed\<close> are what they were.  The
  state differs from the one before in \<open>leds\<close> and \<open>MotorOutput\<close> only, and each
  servo differs in its written position only.
\<close>
theorem unknown_command_keeps_speed_mode:
  "variable \<notin> set recognized \<Longrightarrow>
     (let st' = snd (cmd_handler (Some variable) st) in
        fst (cmd_handler (Some variable) st) = Reply_500 \<and>
        driveSpeed st' = driveSpeed st \<and> speed st' = speed st \<and>
        lowSpeed st' = lowSpeed st \<and> highSpeed st' = highSpeed st \<and>
        st' = st\<lparr>leds := leds st', MotorOutput := MotorOutput st'\<rparr> \<and>
        (\<forall>k. MotorOutput st' k = (MotorOutput st k)\<lparr>written := written (MotorOutput st' k)\<rparr>))"
proof -
  assume u: "variable \<notin> set recognized"
  have sv: "MotorOutput (Motor_STOP s) k = (MotorOutput s k)\<lparr>written := written (MotorOutput (Motor_STOP s) k)\<rparr>"
    for s k
    by (simp add: MotorOutput_Motor_STOP)
  show ?thesis
    unfolding Let_def cmd_handler_unknown [OF u] fst_conv snd_conv
    using sv [of "LED_Red (LED_Green st)"]
    by (simp add: Motor_STOP_def LED_Red_def LED_Green_def LED_SetSolid_def)
qed

theorem unknown_command_keeps_speed_mode_witness:
  "''banana'' \<notin> set recognized \<and>
   driveSpeed (snd (cmd_handler (Some ''banana'') (snd (cmd_handler (Some ''high'') power_on)))) = 90 \<and>
   speed (snd (cmd_handler (Some ''banana'') (snd (cmd_handler (Some ''high'') power_on)))) = ''High''"
proof -
  have u: "''banana'' \<notin> set recognized"
    by (simp add: recognized_def)
  have h: "driveSpeed (snd (cmd_handler (Some ''high'') power_on)) = 90"
    "speed (snd (cmd_handler (Some ''high'') power_on)) = ''High''"
    by (simp_all add: cmd_handler_select LED_Purple_def LED_SetSolid_fields power_on_def)
  let ?st = "snd (cmd_handler (Some ''high'') power_on)"
  have "driveSpeed (snd (cmd_handler (Some ''banana'') ?st)) = driveSpeed ?st \<and>
      speed (snd (cmd_handler (Some ''banana'') ?st)) = speed ?st"
    using unknown_command_keeps_speed_mode [OF u, of ?st] unfolding Let_def by blast
  then show ?thesis
    using u h by simp
qed


section \<open>Start-up and request sequences\<close>


lemma ConfigureMotorOutput_Some:
  "slot \<le> 12 \<Longrightarrow> \<exists>st'. ConfigureMotorOutput slot t a st = Some st' \<and>
     highSpeed st' = highSpeed st \<and> lowSpeed st' = lowSpeed st \<and>
     driveSpeed st' = driveSpeed st \<and> speed st' = speed st \<and> leds st' = leds st \<and>
     (\<forall>k. written (MotorOutput st' k) = (if k = slot then Some a else written (MotorOutput st k)))"
  by (simp add: ConfigureMotorOutput_def IO_PINS_def Servo_write_def split: prod.splits)

lemma configure_slots_Some:
  "1 \<le> s \<Longrightarrow> \<exists>st'. configure_slots s st = Some st' \<and>
     highSpeed st' = highSpeed st \<and> lowSpeed st' = lowSpeed st \<and>
     driveSpeed st' = driveSpeed st \<and> speed st' = speed st \<and> leds st' = leds st \<and>
     (\<forall>k. written (MotorOutput st' k) =
        (if s \<le> k \<and> k \<le> 11 then Some 90 else written (MotorOutput st k)))"
proof (induction s st rule: configure_slots.induct)
  case (1 s st)
  show ?case
  proof (cases "s \<le> 11")
    case True
    then have "s \<le> 12"
      by simp
    from ConfigureMotorOutput_Some [OF this, of N20Plus 90 st]
    obtain st1 where c: "ConfigureMotorOutput s N20Plus 90 st = Some st1"
      and f: "highSpeed st1 = highSpeed st" "lowSpeed st1 = lowSpeed st"
        "driveSpeed st1 = driveSpeed st" "speed st1 = speed st" "leds st1 = leds st"
      and w: "\<forall>k. written (MotorOutput st1 k) = (if k = s then Some 90 else written (MotorOutput st k))"
      by blast
    from "1.IH" [OF True c]
    obtain st2 where r: "configure_slots (Suc s) st1 = Some st2"
      and f2: "highSpeed st2 = highSpeed st1" "lowSpeed st2 = lowSpeed st1"
        "driveSpeed st2 = driveSpeed st1" "speed st2 = speed st1" "leds st2 = leds st1"
      and w2: "\<forall>k. written (MotorOutput st2 k) =
        (if Suc s \<le> k \<and> k \<le> 11 then Some 90 else written (MotorOutput st1 k))"
      by auto
    have "configure_slots s st = Some st2"
      using True c r by (subst configure_slots.simps) simp
    moreover have "\<forall>k. written (MotorOutput st2 k) =
        (if s \<le> k \<and> k \<le> 11 then Some 90 else written (MotorOutput st k))"
      using w w2 True by auto
    ultimately show ?thesis
      using f f2 by simp
  next
    case False
    then show ?thesis
      by (subst configure_slots.simps) auto
  qed
qed

lemma setup_sketch_power_on:
  "\<exists>b. setup_sketch power_on = Some b \<and>
     highSpeed b = 90 \<and> lowSpeed b = 60 \<and> driveSpeed b = 60 \<and>
     (\<forall>k. 1 \<le> k \<and> k \<le> 12 \<longrightarrow> written (MotorOutput b k) = Some 90)"
proof -
  let ?s0 = "LED_Blue power_on"
  have s0: "highSpeed ?s0 = 90" "lowSpeed ?s0 = 60" "driveSpeed ?s0 = 60"
    by (simp_all add: LED_Blue_def LED_SetSolid_fields power_on_def)
  from configure_slots_Some [of 1 ?s0]
  obtain st1 where c1: "configure_slots 1 ?s0 = Some st1"
    and f1: "highSpeed st1 = highSpeed ?s0" "lowSpeed st1 = lowSpeed ?s0"
      "driveSpeed st1 = driveSpeed ?s0"
    and w1: "\<forall>k. written (MotorOutput st1 k) =
        (if 1 \<le> k \<and> k \<le> 11 then Some 90 else written (MotorOutput ?s0 k))"
    by auto
  from ConfigureMotorOutput_Some [of 12 MG90_CR 90 st1]
  obtain st2 where c2: "ConfigureMotorOutput 12 MG90_CR 90 st1 = Some st2"
    and f2: "highSpeed st2 = highSpeed st1" "lowSpeed st2 = lowSpeed st1"
      "driveSpeed st2 = driveSpeed st1"
    and w2: "\<forall>k. written (MotorOutput st2 k) =
        (if k = 12 then Some 90 else written (MotorOutput st1 k))"
    by auto
  have "setup_sketch power_on = Some (LED_White st2)"
    using c1 c2 by (simp add: setup_sketch_def)
  moreover have "\<forall>k. 1 \<le> k \<and> k \<le> 12 \<longrightarrow> written (MotorOutput (LED_White st2) k) = Some 90"
    using w1 w2 by (auto simp: LED_White_def LED_SetSolid_fields)
  ultimately show ?thesis
    using s0 f1 f2 by (simp add: LED_White_def LED_SetSolid_fields)
qed

lemma cmd_handler_speeds:
  "lowSpeed (snd (cmd_handler q st)) = lowSpeed st"
  "highSpeed (snd (cmd_handler q st)) = highSpeed st"
  "driveSpeed (snd (cmd_handler q st)) =
     (if q = Some ''high'' then highSpeed st else if q = Some ''low'' then lowSpeed st
      else driveSpeed st)"
  by (cases q;
      simp add: cmd_handler_def Let_def LED_defs LED_SetSolid_fields Motor_Control_fields
        Motor_STOP_fields functionForward_def functionBackward_def functionLeft_def
        functionRight_def functionStop_def functionA_def functionB_def functionC_def
        functionD_def)+

lemma run_speeds:
  "lowSpeed (run qs st) = lowSpeed st \<and> highSpeed (run qs st) = highSpeed st \<and>
   driveSpeed (run qs st) =
     (case lastSelection qs of
        None \<Rightarrow> driveSpeed st | Some Low \<Rightarrow> lowSpeed st | Some High \<Rightarrow> highSpeed st)"
proof (induction qs arbitrary: st)
  case Nil
  show ?case by simp
next
  case (Cons q qs)
  show ?case
    using Cons.IH [of "snd (cmd_handler q st)"]
    by (simp add: cmd_handler_speeds split: option.splits SpeedMode.splits)
qed

lemma reachable_driveSpeed:
  "\<exists>b. setup_sketch power_on = Some b \<and>
     (\<forall>qs. driveSpeed (run qs b) = 60 \<or> driveSpeed (run qs b) = 90)"
proof -
  from setup_sketch_power_on
  obtain b where b: "setup_sketch power_on = Some b"
    and f: "highSpeed b = 90" "lowSpeed b = 60" "driveSpeed b = 60"
    by blast
  have "driveSpeed (run qs b) = 60 \<or> driveSpeed (run qs b) = 90" for qs
    using run_speeds [of qs b] f by (simp split: option.splits SpeedMode.splits)
  then show ?thesis
    using b by blast
qed

lemma cmd_handler_slots_in_range:
  assumes "slots_in_range st"
  shows "slots_in_range (snd (cmd_handler q st))"
proof (cases q)
  case None
  then show ?thesis
    using assms by (simp add: cmd_handler_def)
next
  case (Some variable)
  have led: "slots_in_range (LED_SetSolid r g b s) = slots_in_range s" for r g b s
    by (simp add: slots_in_range_def LED_SetSolid_fields)
  have upd: "slots_in_range (s\<lparr>driveSpeed := d, speed := m\<rparr>) = slots_in_range s" for s d m
    by (simp add: slots_in_range_def)
  have mc: "slots_in_range (Motor_Control l r s)" for l r s
    using percentToServoAngle_range [of l] percentToServoAngle_range [of r]
    by (simp add: slots_in_range_def written_Motor_Control drive_result_def)
  have ms: "slots_in_range (Motor_STOP s)" for s
    by (simp add: slots_in_range_def MotorOutput_Motor_STOP)
  show ?thesis
    unfolding Some
    using assms
    by (simp add: cmd_handler_def Let_def LED_defs led upd mc ms functionForward_def
        functionBackward_def functionLeft_def functionRight_def functionStop_def
        functionA_def functionB_def functionC_def functionD_def)
qed

lemma run_slots_in_range: "slots_in_range st \<Longrightarrow> slots_in_range (run qs st)"
  by (induction qs arbitrary: st) (simp_all add: cmd_handler_slots_in_range)

lemma run_append: "run (qs @ rs) st = run rs (run qs st)"
  by (induction qs arbitrary: st) simp_all


lemma cmd_handler_sign_table:
  assumes "sign_table c = Some (l, r)"
    and "- 2147483648 < driveSpeed st" and "driveSpeed st < 2147483648"
  shows "written (MotorOutput (snd (cmd_handler (Some c) st)) k) =
           drive_result (l * driveSpeed st) (r * driveSpeed st) st k"
proof -
  have g: "driveSpeed (LED_Green st) = driveSpeed st"
    "drive_result x y (LED_Green st) k = drive_result x y st k" for x y
    by (simp_all add: drive_result_def LED_Green_def LED_SetSolid_fields)
  have n: "int32_neg (driveSpeed st) = - driveSpeed st"
    using assms(2,3) by (rule int32_neg_in_range)
  consider "c = ''forward''" "l = - 1" "r = 1" | "c = ''backward''" "l = 1" "r = - 1"
    | "c = ''left''" "l = - 1" "r = - 1" | "c = ''right''" "l = 1" "r = 1"
    using assms(1) by (auto simp: sign_table_def split: if_splits)
  then show ?thesis
  proof cases
    case 1
    then show ?thesis
      by (simp add: cmd_handler_drive functionForward_def written_Motor_Control g n)
  next
    case 2
    then show ?thesis
      by (simp add: cmd_handler_drive functionBackward_def written_Motor_Control g n)
  next
    case 3
    then show ?thesis
      by (simp add: cmd_handler_drive functionLeft_def written_Motor_Control g n)
  next
    case 4
    then show ?thesis
      by (simp add: cmd_handler_drive functionRight_def written_Motor_Control g)
  qed
qed

text \<open>
  C5.  Start-up succeeds and leaves \<open>driveSpeed\<close> at \<open>lowSpeed\<close> (60, with
  \<open>highSpeed\<close> 90).  After any sequence of requests, \<open>driveSpeed\<close> is the magnitude of
  the last speed selection among them: \<open>highSpeed\<close> if that was \<open>high\<close>, \<open>lowSpeed\<close>
  if it was \<open>low\<close> or if there was none; earlier selections leave no trace.  A drive
  command executed next writes the angles of that magnitude under the signs of the
  table.
\<close>
theorem speed_selection_last_write_wins:
  "\<exists>b. setup_sketch power_on = Some b \<and>
     lowSpeed b = 60 \<and> highSpeed b = 90 \<and> driveSpeed b = lowSpeed b \<and>
     (\<forall>qs. let st = run qs b;
               m = (case lastSelection qs of
                      None \<Rightarrow> lowSpeed b | Some Low \<Rightarrow> lowSpeed b | Some High \<Rightarrow> highSpeed b)
           in driveSpeed st = m \<and>
              (\<forall>c l r k. sign_table c = Some (l, r) \<longrightarrow>
                 written (MotorOutput (snd (cmd_handler (Some c) st)) k) =
                   drive_result (l * m) (r * m) st k))"
proof -
  from setup_sketch_power_on
  obtain b where b: "setup_sketch power_on = Some b"
    and f: "highSpeed b = 90" "lowSpeed b = 60" "driveSpeed b = 60"
    by blast
  have m: "driveSpeed (run qs b) =
      (case lastSelection qs of
         None \<Rightarrow> lowSpeed b | Some Low \<Rightarrow> lowSpeed b | Some High \<Rightarrow> highSpeed b)" for qs
    using run_speeds [of qs b] f by (simp split: option.splits SpeedMode.splits)
  have "- 2147483648 < driveSpeed (run qs b) \<and> driveSpeed (run qs b) < 2147483648" for qs
    unfolding m using f by (simp split: option.splits SpeedMode.splits)
  then have "written (MotorOutput (snd (cmd_handler (Some c) (run qs b))) k) =
      drive_result (l * driveSpeed (run qs b)) (r * driveSpeed (run qs b)) (run qs b) k"
    if "sign_table c = Some (l, r)" for qs c l r k
    using that by (intro cmd_handler_sign_table) simp_all
  with m have "\<forall>qs. let st = run qs b;
               m = (case lastSelection qs of
                      None \<Rightarrow> lowSpeed b | Some Low \<Rightarrow> lowSpeed b | Some High \<Rightarrow> highSpeed b)
           in driveSpeed st = m \<and>
              (\<forall>c l r k. sign_table c = Some (l, r) \<longrightarrow>
                 written (MotorOutput (snd (cmd_handler (Some c) st)) k) =
                   drive_result (l * m) (r * m) st k)"
    unfolding Let_def by metis
  then show ?thesis
    using b f by auto
qed

theorem speed_selection_last_write_wins_witness:
  "\<exists>b. setup_sketch power_on = Some b \<and>
     driveSpeed (run [] b) = 60 \<and>
     driveSpeed (run [Some ''high'', Some ''stop''] b) = 90 \<and>
     driveSpeed (run [Some ''high'', Some ''low'', Some ''banana''] b) = 60 \<and>
     sign_table ''forward'' = Some (- 1, 1) \<and>
     written (MotorOutput (snd (cmd_handler (Some ''forward'') (run [Some ''high''] b))) 2) = Some 9 \<and>
     written (MotorOutput (snd (cmd_handler (Some ''forward'') (run [Some ''high''] b))) 8) = Some 171"
proof -
  from speed_selection_last_write_wins
  obtain b where b: "setup_sketch power_on = Some b"
    and f: "lowSpeed b = 60" "highSpeed b = 90"
    and sel: "\<And>qs. let st = run qs b;
               m = (case lastSelection qs of
                      None \<Rightarrow> lowSpeed b | Some Low \<Rightarrow> lowSpeed b | Some High \<Rightarrow> highSpeed b)
           in driveSpeed st = m \<and>
              (\<forall>c l r k. sign_table c = Some (l, r) \<longrightarrow>
                 written (MotorOutput (snd (cmd_handler (Some c) st)) k) =
                   drive_result (l * m) (r * m) st k)"
    by blast
  have t: "sign_table ''forward'' = Some (- 1, 1)"
    by (simp add: sign_table_def)
  have l: "lastSelection [] = None" "lastSelection [Some ''high'', Some ''stop''] = Some High"
    "lastSelection [Some ''high'', Some ''low'', Some ''banana''] = Some Low"
    "lastSelection [Some ''high''] = Some High"
    by simp_all
  have d0: "driveSpeed (run [] b) = 60"
    using sel [of "[]"] unfolding Let_def l f by simp
  have d1: "driveSpeed (run [Some ''high'', Some ''stop''] b) = 90"
    using sel [of "[Some ''high'', Some ''stop'']"] unfolding Let_def l f by simp
  have d2: "driveSpeed (run [Some ''high'', Some ''low'', Some ''banana''] b) = 60"
    using sel [of "[Some ''high'', Some ''low'', Some ''banana'']"] unfolding Let_def l f by simp
  have w: "written (MotorOutput (snd (cmd_handler (Some ''forward'') (run [Some ''high''] b))) k) =
      drive_result (- 1 * 90) (1 * 90) (run [Some ''high''] b) k" for k
    using sel [of "[Some ''high'']"] t unfolding Let_def l f by simp
  have "written (MotorOutput (snd (cmd_handler (Some ''forward'') (run [Some ''high''] b))) 2) = Some 9"
    "written (MotorOutput (snd (cmd_handler (Some ''forward'') (run [Some ''high''] b))) 8) = Some 171"
    unfolding w by (simp_all add: drive_result_def percentToServoAngle_in_domain)
  then show ?thesis
    using b d0 d1 d2 t by blast
qed

text \<open>
  C6.  Start-up succeeds and writes 90 to every slot 1..12.  After start-up and any
  sequence of requests, with any tokens, recognised or not, and with requests that
  carry no token, the last position written to each slot 1..12 is an integer within
  [0,180].  The neutral value is 90 on every slot: it is what start-up writes, what
  a \<open>stop\<close> at the end of any sequence leaves, and the angle of zero percent.
\<close>
theorem slot_positions_in_range:
  "\<exists>b. setup_sketch power_on = Some b \<and>
     (\<forall>k. 1 \<le> k \<and> k \<le> 12 \<longrightarrow> written (MotorOutput b k) = Some 90) \<and>
     (\<forall>qs k. 1 \<le> k \<and> k \<le> 12 \<longrightarrow>
        (\<exists>a. written (MotorOutput (run qs b) k) = Some a \<and> 0 \<le> a \<and> a \<le> 180)) \<and>
     (\<forall>qs k. 1 \<le> k \<and> k \<le> 12 \<longrightarrow>
        written (MotorOutput (run (qs @ [Some ''stop'']) b) k) = Some 90) \<and>
     percentToServoAngle 0 = 90"
proof -
  from setup_sketch_power_on
  obtain b where b: "setup_sketch power_on = Some b"
    and w: "\<forall>k. 1 \<le> k \<and> k \<le> 12 \<longrightarrow> written (MotorOutput b k) = Some 90"
    by blast
  have "slots_in_range b"
    using w by (simp add: slots_in_range_def)
  then have "slots_in_range (run qs b)" for qs
    by (rule run_slots_in_range)
  then have r: "\<forall>qs k. 1 \<le> k \<and> k \<le> 12 \<longrightarrow>
      (\<exists>a. written (MotorOutput (run qs b) k) = Some a \<and> 0 \<le> a \<and> a \<le> 180)"
    unfolding slots_in_range_def by blast
  have s: "\<forall>qs k. 1 \<le> k \<and> k \<le> 12 \<longrightarrow>
      written (MotorOutput (run (qs @ [Some ''stop'']) b) k) = Some 90"
    by (simp add: run_append cmd_handler_stop LED_Red_def LED_Green_def LED_SetSolid_fields
        MotorOutput_Motor_STOP)
  have z: "percentToServoAngle 0 = 90"
    by (simp add: percentToServoAngle_in_domain)
  show ?thesis
    using b w r s z by blast
qed

theorem slot_positions_in_range_witness:
  "\<exists>b. setup_sketch power_on = Some b \<and> (1::nat) \<le> 7 \<and> (7::nat) \<le> 12 \<and>
     written (MotorOutput b 7) = Some 90 \<and>
     (\<exists>a. written (MotorOutput (run [Some ''high'', Some ''right'', None, Some ''banana'',
                                       Some ''backward''] b) 7) = Some a \<and> 0 \<le> a \<and> a \<le> 180)"
proof -
  from slot_positions_in_range
  obtain b where b: "setup_sketch power_on = Some b"
    and w: "\<forall>k. 1 \<le> k \<and> k \<le> 12 \<longrightarrow> written (MotorOutput b k) = Some 90"
    and r: "\<forall>qs k. 1 \<le> k \<and> k \<le> 12 \<longrightarrow>
        (\<exists>a. written (MotorOutput (run qs b) k) = Some a \<and> 0 \<le> a \<and> a \<le> 180)"
    by blast
  have k: "(1::nat) \<le> 7 \<and> (7::nat) \<le> 12"
    by simp
  show ?thesis
    using b k w r by blast
qed


end
